theory Spec2Isabelle
  imports Main
begin

section \<open>The graph debugger of \<^verbatim>\<open>bindings/python/cntk/debug.py\<close>\<close>

text \<open>
  The module defines \<^verbatim>\<open>save_as_legacy_model\<close>, the class \<^verbatim>\<open>DebugNode\<close> and
  \<^verbatim>\<open>debug_model\<close>. The embedding follows the Python text: the class attributes
  \<^verbatim>\<open>DebugNode._commands\<close> and \<^verbatim>\<open>DebugNode._last_pass\<close> live in one record of the
  interpreter's state together with the store of list objects, the lines still to be read
  from standard input and everything written to standard output. Every function returns
  the state it leaves behind, also when it raises.
\<close>

subsection \<open>Values, exceptions and the state of the process\<close>

datatype error =
    EOFError        \<comment> \<open>\<^verbatim>\<open>input\<close> at the end of standard input\<close>
  | SystemExit      \<comment> \<open>\<^verbatim>\<open>sys.exit(0)\<close>\<close>
  | TypeError       \<comment> \<open>\<^verbatim>\<open>type(...) += ' (sparse)'\<close>\<close>
  | IndexError      \<comment> \<open>\<^verbatim>\<open>commands[-1]\<close> on an empty list\<close>
  | MemoryError     \<comment> \<open>\<^verbatim>\<open>['n'] * number\<close> too long a list (MemoryError or OverflowError)\<close>
  | EvalRaised      \<comment> \<open>any exception of \<^verbatim>\<open>eval\<close> other than SyntaxError\<close>
  | PredicateRaised \<comment> \<open>an exception raised by a user's lambda\<close>
  | PdbRaised       \<comment> \<open>an exception that leaves a pdb session, such as BdbQuit\<close>

datatype 'r outcome = Return 'r | Raise error

text \<open>
  What \<^verbatim>\<open>self.after\<close> is: the four branches of the \<^verbatim>\<open>isinstance\<close> chain in
  \<^verbatim>\<open>_format_status\<close>. \<open>Function\<close> carries \<^verbatim>\<open>op_name\<close>, \<open>OtherType\<close> carries the text
  of \<^verbatim>\<open>type(self.after)\<close>.
\<close>

datatype node_kind = Constant | Parameter | Function string | OtherType string

record node =
  kind :: node_kind
  is_sparse :: bool
  name :: string
  uid :: string
  dynamic_axes :: "string list"
  shape :: "int list"

text \<open>
  A Python value that can sit in the command list: a string, a callable taking
  \<^verbatim>\<open>(arg, node)\<close> (its result read for truth, or an exception), or any other object
  (neither callable nor equal to a string).
\<close>

datatype 'a pyval =
    PStr string
  | PCallable "'a \<Rightarrow> node \<Rightarrow> bool outcome"
  | PObject

datatype 'a eval_result = EvalValue "'a pyval" | EvalSyntaxError | EvalOtherError

datatype ('a, 'st) event =
    Print string             \<comment> \<open>\<^verbatim>\<open>print(text)\<close>\<close>
  | Prompt string            \<comment> \<open>the prompt written by \<^verbatim>\<open>input(prompt)\<close>\<close>
  | PrintValue 'a            \<comment> \<open>\<^verbatim>\<open>print(argument)\<close>, \<^verbatim>\<open>print(root_gradients)\<close>\<close>
  | PrintState "'st option"  \<comment> \<open>\<^verbatim>\<open>print('State: %s' % str(state))\<close>\<close>
  | PdbOutput string         \<comment> \<open>what a pdb session writes\<close>

type_synonym ref = nat

record ('a, 'st) world =
  heap :: "ref \<Rightarrow> 'a pyval list"        \<comment> \<open>the list objects\<close>
  next_ref :: ref                        \<comment> \<open>the next unused reference\<close>
  DebugNode_commands :: ref              \<comment> \<open>\<^verbatim>\<open>DebugNode._commands\<close>\<close>
  DebugNode_last_pass :: string          \<comment> \<open>\<^verbatim>\<open>DebugNode._last_pass\<close>\<close>
  stdin :: "string list"                 \<comment> \<open>the lines not yet read\<close>
  stdout :: "('a, 'st) event list"       \<comment> \<open>everything written so far\<close>

text \<open>
  What the module takes from outside are parameters of the model: the builtins \<^verbatim>\<open>int\<close>
  (\<open>None\<close> is ValueError) and \<^verbatim>\<open>eval\<close> applied to the user's text, the length of the
  longest list the interpreter can build (\<^verbatim>\<open>['n'] * number\<close> raises OverflowError or
  MemoryError beyond it), and \<^verbatim>\<open>pdb.set_trace()\<close>. A pdb session stops in the frame of
  \<^verbatim>\<open>forward\<close> or \<^verbatim>\<open>backward\<close>, reads its commands from the same standard input and can
  change everything: it is given the value of the frame's data variable (\<^verbatim>\<open>argument\<close>,
  \<^verbatim>\<open>root_gradients\<close>) and the state, and yields the value the variable has when the session
  ends, or the exception that leaves it, and the state it leaves. The field \<open>stdout\<close> of
  that state holds what the session has written.
\<close>

record ('a, 'st) builtins =
  py_int :: "string \<Rightarrow> int option"
  py_eval :: "string \<Rightarrow> 'a eval_result"
  list_limit :: nat
  pdb_set_trace :: "'a \<Rightarrow> ('a, 'st) world \<Rightarrow> 'a outcome \<times> ('a, 'st) world"

text \<open>An instance: \<^verbatim>\<open>self.after\<close>, and the identity of the object.\<close>

record debug_node =
  after :: node
  oid :: nat

text \<open>The state after the class body has run: \<^verbatim>\<open>_commands = []\<close>, \<^verbatim>\<open>_last_pass = 'f'\<close>.\<close>

definition class_loaded :: "string list \<Rightarrow> ('a, 'st) world" where
  "class_loaded lines =
     \<lparr>heap = (\<lambda>r. []), next_ref = 1, DebugNode_commands = 0, DebugNode_last_pass = ''f'',
      stdin = lines, stdout = []\<rparr>"

text \<open>The list \<^verbatim>\<open>DebugNode._commands\<close> refers to.\<close>

definition pending :: "('a, 'st) world \<Rightarrow> 'a pyval list" where
  "pending w = heap w (DebugNode_commands w)"

text \<open>\<^verbatim>\<open>commands.pop()\<close> and the creation of a list object.\<close>

definition pop :: "ref \<Rightarrow> ('a, 'st) world \<Rightarrow> ('a, 'st) world" where
  "pop r w = w\<lparr>heap := (heap w)(r := butlast (heap w r))\<rparr>"

definition new_list :: "'a pyval list \<Rightarrow> ('a, 'st) world \<Rightarrow> ref \<times> ('a, 'st) world" where
  "new_list xs w =
     (next_ref w, w\<lparr>heap := (heap w)(next_ref w := xs), next_ref := Suc (next_ref w)\<rparr>)"

definition emit :: "('a, 'st) event \<Rightarrow> ('a, 'st) world \<Rightarrow> ('a, 'st) world" where
  "emit e w = w\<lparr>stdout := stdout w @ [e]\<rparr>"

subsection \<open>\<^verbatim>\<open>__wait_for_input\<close>\<close>

text \<open>\<^verbatim>\<open>str.strip()\<close>: the characters below 256 for which \<^verbatim>\<open>str.isspace\<close> holds.\<close>

definition isspace :: "char \<Rightarrow> bool" where
  "isspace c = (of_char c \<in> {9, 10, 11, 12, 13, 28, 29, 30, 31, 32, 133, 160 :: nat})"

definition strip :: "string \<Rightarrow> string" where
  "strip s = rev (dropWhile isspace (rev (dropWhile isspace s)))"

definition help_text :: string where
  \<open>help_text =
     ''Commands:\<newline>'' @
     ''    n - execute the next node\<newline>'' @
     ''    n <number> - execute the next <number> nodes\<newline>'' @
     ''    n <lambda> - execute until the lambda expression is True. Examples:\<newline>'' @
     ''                 Until a Times node is hit:\<newline>'' @
     ''                     lambda arg, node: node.op_name == \'Times\'\<newline>'' @
     ''                 Until a node is hit that has 3 dimensions:\<newline>'' @
     ''                     lambda arg, node: len(node.shape) == 3\<newline>'' @
     ''                 Until the variance of the input exceeds 1 (np = numpy):\<newline>'' @
     ''                     lambda arg, node: np.var(arg) > 1\<newline>'' @
     ''    f - run until forward pass (like \'n\' when already in forward pass)\<newline>'' @
     ''    b - run until backward pass (like \'n\' when already in backward pass)\<newline>'' @
     ''    c - run until end\<newline>'' @
     ''    p - print input (forward) or root gradients (backward)\<newline>'' @
     ''    d - drop into a pdb shell\<newline>'' @
     ''    q - quit\<newline>''\<close>

text \<open>
  The \<^verbatim>\<open>if\<close>/\<^verbatim>\<open>elif\<close> chain on a non-empty \<^verbatim>\<open>new_input\<close>: the value of
  \<^verbatim>\<open>understood\<close> after it (the empty list stands for every false value: \<^verbatim>\<open>False\<close>
  and \<^verbatim>\<open>['n'] * number\<close> with \<^verbatim>\<open>number <= 0\<close>), or the exception that leaves the
  function. Only ValueError and, inside its handler, SyntaxError are caught.
\<close>

definition understand :: "('a, 'st) builtins \<Rightarrow> string \<Rightarrow> 'a pyval list outcome" where
  "understand env new_input =
     (if length new_input = 1 \<and> hd new_input \<in> set ''bcdfp'' then Return [PStr new_input]
      else if hd new_input = CHR ''n'' then
        (case (if length new_input > 1 then py_int env (tl new_input) else Some 1) of
           Some number \<Rightarrow>
             (if int (list_limit env) < number then Raise MemoryError
              else Return (replicate (nat number) (PStr ''n'')))
         | None \<Rightarrow>
            (case py_eval env (tl new_input) of
               EvalValue code \<Rightarrow> Return [code]
             | EvalSyntaxError \<Rightarrow> Return []
             | EvalOtherError \<Rightarrow> Raise EvalRaised))
      else if new_input = ''q'' then Raise SystemExit
      else Return [])"

function wait_for_input ::
  "('a, 'st) builtins \<Rightarrow> string \<Rightarrow> ('a, 'st) world \<Rightarrow> 'a pyval list outcome \<times> ('a, 'st) world" where
  "wait_for_input env prompt w =
     (case stdin w of
        [] \<Rightarrow> (Raise EOFError, emit (Prompt prompt) w)
      | line # rest \<Rightarrow>
          (if strip line = [] then wait_for_input env prompt (emit (Prompt prompt) w\<lparr>stdin := rest\<rparr>)
           else
             (case understand env (strip line) of
                Raise e \<Rightarrow> (Raise e, emit (Prompt prompt) w\<lparr>stdin := rest\<rparr>)
              | Return [] \<Rightarrow>
                  wait_for_input env prompt
                    (emit (Print help_text) (emit (Prompt prompt) w\<lparr>stdin := rest\<rparr>))
              | Return (c # cs) \<Rightarrow> (Return (c # cs), emit (Prompt prompt) w\<lparr>stdin := rest\<rparr>))))"
  by pat_completeness auto
termination
  by (relation "measure (\<lambda>(env, prompt, w). length (stdin w))") (auto simp: emit_def)

declare wait_for_input.simps [simp del]

subsection \<open>\<^verbatim>\<open>_format_status\<close> and \<^verbatim>\<open>_print_status\<close>\<close>

fun show_nat :: "nat \<Rightarrow> string" where
  "show_nat n =
     (if n < 10 then [''0123456789'' ! n]
      else show_nat (n div 10) @ [''0123456789'' ! (n mod 10)])"

definition show_int :: "int \<Rightarrow> string" where
  "show_int i = (if i < 0 then CHR ''-'' # show_nat (nat (- i)) else show_nat (nat i))"

text \<open>\<^verbatim>\<open>', '.join(...)\<close> and \<^verbatim>\<open>str\<close> of a tuple of integers.\<close>

fun join :: "string \<Rightarrow> string list \<Rightarrow> string" where
  "join sep [] = []"
| "join sep [x] = x"
| "join sep (x # y # ys) = x @ sep @ join sep (y # ys)"

definition str_tuple :: "int list \<Rightarrow> string" where
  "str_tuple ds =
     (case ds of
        [] \<Rightarrow> ''()''
      | [d] \<Rightarrow> ''('' @ show_int d @ '',)''
      | _ \<Rightarrow> ''('' @ join '', '' (map show_int ds) @ '')'')"

definition format_status :: "debug_node \<Rightarrow> string outcome" where
  \<open>format_status self =
     (case (case kind (after self) of
              Constant \<Rightarrow> Return ''Constant''
            | Parameter \<Rightarrow> Return ''Parameter''
            | Function op_name \<Rightarrow> Return op_name
            | OtherType t \<Rightarrow> (if is_sparse (after self) then Raise TypeError else Return t)) of
        Raise e \<Rightarrow> Raise e
      | Return node_type0 \<Rightarrow>
          Return
            ((if is_sparse (after self) then node_type0 @ '' (sparse)'' else node_type0) @
             '' node with '' @
             (if name (after self) \<noteq> [] then ''name='' @ [CHR 0x27] @ name (after self) @ [CHR 0x27] @ '' '' else []) @
             ''uid='' @ [CHR 0x27] @ uid (after self) @ [CHR 0x27] @ '' shape='' @
             (''['' @ join '','' (replicate (length (dynamic_axes (after self))) ''*'') @ '']'') @
             str_tuple (shape (after self))))\<close>

definition banner :: "string \<Rightarrow> string" where
  "banner mid = replicate 40 CHR ''='' @ mid @ replicate 40 CHR ''=''"

definition print_status ::
  "debug_node \<Rightarrow> string \<Rightarrow> ('a, 'st) world \<Rightarrow> unit outcome \<times> ('a, 'st) world" where
  "print_status self current_pass w =
     (let w1 =
        (if current_pass \<noteq> DebugNode_last_pass w then
           (if current_pass = ''f'' then emit (Print (banner '' forward  '')) (emit (Print []) w)
            else emit (Print (banner '' backward '')) w)
         else w)
      in case format_status self of
           Raise e \<Rightarrow> (Raise e, w1)
         | Return status \<Rightarrow>
             (if current_pass = ''f'' then (Return (), emit (Print (''Forward after '' @ status)) w1)
              else (Return (), emit (Print (''Backward before '' @ status)) w1)))"

subsection \<open>\<^verbatim>\<open>forward\<close> and \<^verbatim>\<open>backward\<close>\<close>

text \<open>
  The first statement of the loop body, shared by both methods: with an empty list the
  parser is called, and its result becomes both \<^verbatim>\<open>DebugNode._commands\<close> and the local
  variable \<^verbatim>\<open>commands\<close>.
\<close>

definition refill ::
  "('a, 'st) builtins \<Rightarrow> string \<Rightarrow> ref \<Rightarrow> ('a, 'st) world \<Rightarrow> ref outcome \<times> ('a, 'st) world" where
  "refill env prompt commands w =
     (if heap w commands = [] then
        (case wait_for_input env prompt w of
           (Raise e, w1) \<Rightarrow> (Raise e, w1)
         | (Return understood, w1) \<Rightarrow>
             (case new_list understood w1 of
                (r, w2) \<Rightarrow> (Return r, w2\<lparr>DebugNode_commands := r\<rparr>)))
      else (Return commands, w))"

text \<open>
  \<^verbatim>\<open>pdb.set_trace()\<close>: what the session has written is appended to the output so far.
\<close>

definition pdb_session ::
  "('a, 'st) builtins \<Rightarrow> 'a \<Rightarrow> ('a, 'st) world \<Rightarrow> 'a outcome \<times> ('a, 'st) world" where
  "pdb_session env variable w =
     (case pdb_set_trace env variable w of
        (r, w1) \<Rightarrow> (r, w1\<lparr>stdout := stdout w @ stdout w1\<rparr>))"

text \<open>
  One pass through the body of \<^verbatim>\<open>while not done\<close> in \<^verbatim>\<open>forward\<close>: the values of
  \<^verbatim>\<open>done\<close>, \<^verbatim>\<open>commands\<close> and \<^verbatim>\<open>argument\<close> at its end. When no branch of the chain
  matches, nothing changes and \<^verbatim>\<open>done\<close> stays false.
\<close>

definition forward_body ::
  "('a, 'st) builtins \<Rightarrow> debug_node \<Rightarrow> 'a \<Rightarrow> ref \<Rightarrow> ('a, 'st) world \<Rightarrow>
     (bool \<times> ref \<times> 'a) outcome \<times> ('a, 'st) world" where
  "forward_body env self argument commands0 w0 =
     (case refill env ''[CNTK forward] >>> '' commands0 w0 of
        (Raise e, w) \<Rightarrow> (Raise e, w)
      | (Return commands, w) \<Rightarrow>
          (case heap w commands of
             [] \<Rightarrow> (Raise IndexError, w)
           | _ # _ \<Rightarrow>
              (case last (heap w commands) of
                 PStr s \<Rightarrow>
                   (if s = ''c'' then (Return (True, commands, argument), w)
                    else if s = ''n'' then (Return (True, commands, argument), pop commands w)
                    else if s = ''b'' then (Return (True, commands, argument), w)
                    else if s = ''f'' then (Return (True, commands, argument), pop commands w)
                    else if s = ''p'' then
                      (Return (False, commands, argument),
                       pop commands (emit (PrintValue argument) (emit (Print ''Input: '') w)))
                    else if s = ''d'' then
                      (case pdb_session env argument (pop commands w) of
                         (Raise e, w1) \<Rightarrow> (Raise e, w1)
                       | (Return argument1, w1) \<Rightarrow> (Return (True, commands, argument1), w1))
                    else (Return (False, commands, argument), w))
               | PCallable code \<Rightarrow>
                   (case code argument (after self) of
                      Raise e \<Rightarrow> (Raise e, w)
                    | Return True \<Rightarrow> (Return (False, commands, argument), pop commands w)
                    | Return False \<Rightarrow> (Return (True, commands, argument), w))
               | PObject \<Rightarrow> (Return (False, commands, argument), w))))"

partial_function (option) forward_loop ::
  "('a, 'st) builtins \<Rightarrow> debug_node \<Rightarrow> 'a \<Rightarrow> ref \<Rightarrow> ('a, 'st) world \<Rightarrow>
     ((ref \<times> 'a) outcome \<times> ('a, 'st) world) option" where
  "forward_loop env self argument commands w =
     (case forward_body env self argument commands w of
        (Raise e, w1) \<Rightarrow> Some (Raise e, w1)
      | (Return (done, commands1, argument1), w1) \<Rightarrow>
          (if done then Some (Return (commands1, argument1), w1)
           else forward_loop env self argument1 commands1 w1))"

text \<open>\<open>None\<close> is a call that never returns; the returned pair is \<^verbatim>\<open>(None, argument)\<close>.\<close>

definition forward ::
  "('a, 'st) builtins \<Rightarrow> debug_node \<Rightarrow> 'a \<Rightarrow> ('a, 'st) world \<Rightarrow>
     (('st option \<times> 'a) outcome \<times> ('a, 'st) world) option" where
  "forward env self argument w =
     (case print_status self ''f'' w of
        (Raise e, w1) \<Rightarrow> Some (Raise e, w1)
      | (Return u, w1) \<Rightarrow>
          (case forward_loop env self argument (DebugNode_commands w1) w1 of
             None \<Rightarrow> None
           | Some (Raise e, w2) \<Rightarrow> Some (Raise e, w2)
           | Some (Return (commands, argument1), w2) \<Rightarrow>
               Some (Return (None, argument1), w2\<lparr>DebugNode_last_pass := ''f''\<rparr>)))"

definition backward_body ::
  "('a, 'st) builtins \<Rightarrow> debug_node \<Rightarrow> 'st option \<Rightarrow> 'a \<Rightarrow> ref \<Rightarrow> ('a, 'st) world \<Rightarrow>
     (bool \<times> ref \<times> 'a) outcome \<times> ('a, 'st) world" where
  "backward_body env self state root_gradients commands0 w0 =
     (case refill env ''[CNTK backward] >>> '' commands0 w0 of
        (Raise e, w) \<Rightarrow> (Raise e, w)
      | (Return commands, w) \<Rightarrow>
          (case heap w commands of
             [] \<Rightarrow> (Raise IndexError, w)
           | _ # _ \<Rightarrow>
              (case last (heap w commands) of
                 PStr s \<Rightarrow>
                   (if s = ''c'' then (Return (True, commands, root_gradients), w)
                    else if s = ''n'' then (Return (True, commands, root_gradients), pop commands w)
                    else if s = ''b'' then (Return (True, commands, root_gradients), pop commands w)
                    else if s = ''f'' then (Return (True, commands, root_gradients), w)
                    else if s = ''p'' then
                      (Return (False, commands, root_gradients),
                       pop commands
                         (emit (PrintValue root_gradients)
                            (emit (Print ''Root gradients: '') (emit (PrintState state) w))))
                    else if s = ''d'' then
                      (case pdb_session env root_gradients w of
                         (Raise e, w1) \<Rightarrow> (Raise e, w1)
                       | (Return root_gradients1, w1) \<Rightarrow>
                           (Return (True, commands, root_gradients1), w1))
                    else (Return (False, commands, root_gradients), w))
               | PCallable code \<Rightarrow>
                   (case code root_gradients (after self) of
                      Raise e \<Rightarrow> (Raise e, w)
                    | Return True \<Rightarrow> (Return (False, commands, root_gradients), pop commands w)
                    | Return False \<Rightarrow> (Return (True, commands, root_gradients), w))
               | PObject \<Rightarrow> (Return (False, commands, root_gradients), w))))"

partial_function (option) backward_loop ::
  "('a, 'st) builtins \<Rightarrow> debug_node \<Rightarrow> 'st option \<Rightarrow> 'a \<Rightarrow> ref \<Rightarrow> ('a, 'st) world \<Rightarrow>
     ((ref \<times> 'a) outcome \<times> ('a, 'st) world) option" where
  "backward_loop env self state root_gradients commands w =
     (case backward_body env self state root_gradients commands w of
        (Raise e, w1) \<Rightarrow> Some (Raise e, w1)
      | (Return (done, commands1, root_gradients1), w1) \<Rightarrow>
          (if done then Some (Return (commands1, root_gradients1), w1)
           else backward_loop env self state root_gradients1 commands1 w1))"

definition backward ::
  "('a, 'st) builtins \<Rightarrow> debug_node \<Rightarrow> 'st option \<Rightarrow> 'a \<Rightarrow> ('a, 'st) world \<Rightarrow>
     ('a outcome \<times> ('a, 'st) world) option" where
  "backward env self state root_gradients w =
     (case print_status self ''b'' w of
        (Raise e, w1) \<Rightarrow> Some (Raise e, w1)
      | (Return u, w1) \<Rightarrow>
          (case backward_loop env self state root_gradients (DebugNode_commands w1) w1 of
             None \<Rightarrow> None
           | Some (Raise e, w2) \<Rightarrow> Some (Raise e, w2)
           | Some (Return (commands, root_gradients1), w2) \<Rightarrow>
               Some (Return root_gradients1, w2\<lparr>DebugNode_last_pass := ''b''\<rparr>)))"

subsection \<open>The calls of the host framework\<close>

text \<open>
  During evaluation and training the framework calls \<^verbatim>\<open>forward\<close> and \<^verbatim>\<open>backward\<close> of
  the nodes it visits, one call after the other. A traversal stops at the first call that
  raises; \<open>None\<close> is a traversal with a call that never returns.
\<close>

datatype ('a, 'st) visit =
    Forward debug_node 'a
  | Backward debug_node "'st option" 'a

fun visited :: "('a, 'st) visit \<Rightarrow> debug_node" where
  "visited (Forward self argument) = self"
| "visited (Backward self state root_gradients) = self"

fun call ::
  "('a, 'st) builtins \<Rightarrow> ('a, 'st) visit \<Rightarrow> ('a, 'st) world \<Rightarrow> (unit outcome \<times> ('a, 'st) world) option" where
  "call env (Forward self argument) w =
     (case forward env self argument w of
        None \<Rightarrow> None
      | Some (Raise e, w1) \<Rightarrow> Some (Raise e, w1)
      | Some (Return r, w1) \<Rightarrow> Some (Return (), w1))"
| "call env (Backward self state root_gradients) w =
     (case backward env self state root_gradients w of
        None \<Rightarrow> None
      | Some (Raise e, w1) \<Rightarrow> Some (Raise e, w1)
      | Some (Return r, w1) \<Rightarrow> Some (Return (), w1))"

fun traverse ::
  "('a, 'st) builtins \<Rightarrow> ('a, 'st) visit list \<Rightarrow> ('a, 'st) world \<Rightarrow>
     (unit outcome \<times> ('a, 'st) world) option" where
  "traverse env [] w = Some (Return (), w)"
| "traverse env (v # vs) w =
     (case call env v w of
        None \<Rightarrow> None
      | Some (Raise e, w1) \<Rightarrow> Some (Raise e, w1)
      | Some (Return u, w1) \<Rightarrow> traverse env vs w1)"

text \<open>The data a call hands to a predicate: the argument, or the root gradients.\<close>

fun data :: "('a, 'st) visit \<Rightarrow> 'a" where
  "data (Forward self argument) = argument"
| "data (Backward self state root_gradients) = root_gradients"

text \<open>The loop a call runs, the prompt it shows and the pass it records.\<close>

fun visit_loop ::
  "('a, 'st) builtins \<Rightarrow> ('a, 'st) visit \<Rightarrow> ref \<Rightarrow> ('a, 'st) world \<Rightarrow>
     ((ref \<times> 'a) outcome \<times> ('a, 'st) world) option" where
  "visit_loop env (Forward self argument) commands w = forward_loop env self argument commands w"
| "visit_loop env (Backward self state root_gradients) commands w =
     backward_loop env self state root_gradients commands w"

fun prompt_of :: "('a, 'st) visit \<Rightarrow> string" where
  "prompt_of (Forward self argument) = ''[CNTK forward] >>> ''"
| "prompt_of (Backward self state root_gradients) = ''[CNTK backward] >>> ''"

fun pass_of :: "('a, 'st) visit \<Rightarrow> string" where
  "pass_of (Forward self argument) = ''f''"
| "pass_of (Backward self state root_gradients) = ''b''"

text \<open>How often \<^verbatim>\<open>input\<close> has been called.\<close>

fun is_prompt :: "('a, 'st) event \<Rightarrow> bool" where
  "is_prompt (Prompt p) = True"
| "is_prompt e = False"

definition prompts :: "('a, 'st) world \<Rightarrow> nat" where
  "prompts w = length (filter is_prompt (stdout w))"

text \<open>
  What is seen of a traversal from outside: how it ended, the commands left pending, the
  input left unread and the number of prompts so far.
\<close>

fun observed ::
  "(unit outcome \<times> ('a, 'st) world) option \<Rightarrow>
     (unit outcome \<times> 'a pyval list \<times> string list \<times> nat) option" where
  "observed None = None"
| "observed (Some (r, w)) = Some (r, pending w, stdin w, prompts w)"

subsection \<open>\<^verbatim>\<open>debug_model\<close> and \<^verbatim>\<open>save_as_legacy_model\<close>\<close>

text \<open>
  \<^verbatim>\<open>DebugNode(n)\<close> creates an object; \<open>next_oid\<close> is the identity the next new object
  gets. The dictionary comprehension \<^verbatim>\<open>{n: DebugNode(n) for n in nodes}\<close> runs through
  the list in order, a later entry replacing an earlier one with the same key.
\<close>

definition DebugNode_init :: "node \<Rightarrow> nat \<Rightarrow> debug_node" where
  "DebugNode_init arg next_oid = \<lparr>after = arg, oid = next_oid\<rparr>"

fun wrap_nodes :: "node list \<Rightarrow> nat \<Rightarrow> (node \<rightharpoonup> debug_node) \<Rightarrow> (node \<rightharpoonup> debug_node)" where
  "wrap_nodes [] next_oid m = m"
| "wrap_nodes (n # ns) next_oid m = wrap_nodes ns (Suc next_oid) (m(n \<mapsto> DebugNode_init n next_oid))"

text \<open>
  \<^verbatim>\<open>cntk.graph.depth_first_search\<close>, \<^verbatim>\<open>Function.clone\<close> and \<^verbatim>\<open>CloneMethod.share\<close> belong
  to the host framework and are parameters.
\<close>

definition debug_model ::
  "('g \<Rightarrow> (node \<Rightarrow> bool) \<Rightarrow> node list) \<Rightarrow> ('g \<Rightarrow> 'm \<Rightarrow> (node \<rightharpoonup> debug_node) \<Rightarrow> 'g) \<Rightarrow> 'm \<Rightarrow>
     nat \<Rightarrow> 'g \<Rightarrow> 'g" where
  "debug_model depth_first_search clone CloneMethod_share next_oid model =
     (let nodes = depth_first_search model (\<lambda>x. True);
          substitution = wrap_nodes nodes next_oid Map.empty
      in clone model CloneMethod_share substitution)"

text \<open>
  The process as \<^verbatim>\<open>save_as_legacy_model\<close> sees it: the debugger's state and the calls
  made to \<^verbatim>\<open>cntk_py.save_as_legacy_model\<close>, each with its two arguments.
\<close>

record ('g, 'a, 'st) process =
  debugger :: "('a, 'st) world"
  serializer_calls :: "('g \<times> string) list"

definition save_as_legacy_model ::
  "'g \<Rightarrow> string \<Rightarrow> ('g, 'a, 'st) process \<Rightarrow> ('g, 'a, 'st) process" where
  "save_as_legacy_model root_op filename p =
     p\<lparr>serializer_calls := serializer_calls p @ [(root_op, filename)]\<rparr>"

subsection \<open>Sample inputs\<close>

text \<open>
  Sample builtins and three nodes for the concrete runs below; the data of a node is a
  natural number here. \<open>sample_int\<close> reads a decimal numeral with an optional sign (Python's
  \<^verbatim>\<open>int\<close> accepts more, such as underscores between digits). \<open>sample_eval\<close> is a table of
  four texts: a lambda, a number, a name that is not defined and an unbalanced parenthesis;
  the runs below use no other text. \<open>sample_pdb\<close> is a session of one line: \<^verbatim>\<open>c\<close>
  continues, anything else (or the end of the input) leaves the session with an exception.
\<close>

definition sample_int :: "string \<Rightarrow> int option" where
  "sample_int s =
     (let t = strip s;
          d = (if t \<noteq> [] \<and> hd t \<in> set ''+-'' then tl t else t)
      in if d \<noteq> [] \<and> list_all (\<lambda>c. c \<in> set ''0123456789'') d
         then Some ((if hd t = CHR ''-'' then - 1 else 1) *
                    foldl (\<lambda>a c. 10 * a + (int (of_char c) - 48)) 0 d)
         else None)"

definition sample_eval :: "string \<Rightarrow> nat eval_result" where
  "sample_eval s =
     (if strip s = ''lambda arg, node: arg > 1'' then EvalValue (PCallable (\<lambda>a n. Return (a > 1)))
      else if strip s = ''1.5'' then EvalValue PObject
      else if strip s = ''foo'' then EvalOtherError
      else if strip s = ''('' then EvalSyntaxError
      else EvalOtherError)"

definition sample_pdb :: "nat \<Rightarrow> (nat, 'st) world \<Rightarrow> nat outcome \<times> (nat, 'st) world" where
  "sample_pdb variable w =
     (case stdin w of
        [] \<Rightarrow> (Raise PdbRaised, w\<lparr>stdout := [PdbOutput ''(Pdb) '']\<rparr>)
      | line # rest \<Rightarrow>
          (if strip line = ''c'' then (Return variable, w\<lparr>stdin := rest, stdout := [PdbOutput ''(Pdb) '']\<rparr>)
           else (Raise PdbRaised, w\<lparr>stdin := rest, stdout := [PdbOutput ''(Pdb) '']\<rparr>)))"

definition sample_env :: "(nat, 'st) builtins" where
  "sample_env =
     \<lparr>py_int = sample_int, py_eval = sample_eval, list_limit = 1000, pdb_set_trace = sample_pdb\<rparr>"

definition times_node :: debug_node where
  "times_node =
     \<lparr>after = \<lparr>kind = Function ''Times'', is_sparse = False, name = [], uid = ''Times29'',
               dynamic_axes = [''batch'', ''sequence''], shape = [2]\<rparr>, oid = 0\<rparr>"

definition parameter_node :: debug_node where
  "parameter_node =
     \<lparr>after = \<lparr>kind = Parameter, is_sparse = False, name = ''W'', uid = ''Parameter28'',
               dynamic_axes = [], shape = [2, 3]\<rparr>, oid = 1\<rparr>"

definition sparse_input_node :: debug_node where
  "sparse_input_node =
     \<lparr>after = \<lparr>kind = OtherType ''<class Variable>'', is_sparse = True, name = [],
               uid = ''Input3'', dynamic_axes = [''batch''], shape = [5]\<rparr>, oid = 2\<rparr>"

section \<open>Properties\<close>

lemmas eval_defs =
  wait_for_input.simps forward_def backward_def print_status_def format_status_def forward_loop.simps backward_loop.simps
  forward_body_def backward_body_def refill_def new_list_def pop_def pending_def emit_def
  class_loaded_def strip_def isspace_def understand_def str_tuple_def show_int_def banner_def
  sample_env_def sample_int_def sample_eval_def times_node_def parameter_node_def
  sparse_input_node_def pdb_session_def sample_pdb_def eval_nat_numeral

subsection \<open>Saving a model\<close>

text \<open>
  C8. \<^verbatim>\<open>save_as_legacy_model\<close> makes one call to the serializer of the host framework, with
  its own two arguments, and leaves the debugger's state as it was.
\<close>

theorem save_as_legacy_model_passthrough:
  "serializer_calls (save_as_legacy_model root_op filename p) =
     serializer_calls p @ [(root_op, filename)] \<and>
   debugger (save_as_legacy_model root_op filename p) = debugger p"
  by (simp add: save_as_legacy_model_def)

subsection \<open>The status line\<close>

lemma format_status_cases:
  "format_status self = Raise TypeError \<or> (\<exists>status. format_status self = Return status)"
  by (simp add: format_status_def split: node_kind.splits)

lemma print_status_frame:
  "heap (snd (print_status self p w)) = heap w"
  "DebugNode_commands (snd (print_status self p w)) = DebugNode_commands w"
  "DebugNode_last_pass (snd (print_status self p w)) = DebugNode_last_pass w"
  "next_ref (snd (print_status self p w)) = next_ref w"
  "stdin (snd (print_status self p w)) = stdin w"
  "prompts (snd (print_status self p w)) = prompts w"
  by (simp_all add: print_status_def Let_def emit_def prompts_def split: outcome.splits)

lemma print_status_outcome:
  "fst (print_status self p w) =
     (case format_status self of Raise e \<Rightarrow> Raise e | Return status \<Rightarrow> Return ())"
  by (simp add: print_status_def Let_def split: outcome.splits)

subsection \<open>What the parser does with a line it does not understand\<close>

lemma wait_for_input_prompts_first:
  "\<exists>evs. stdout (snd (wait_for_input env prompt w)) = stdout w @ Prompt prompt # evs"
proof (induction env prompt w rule: wait_for_input.induct)
  case (1 env prompt w)
  show ?case
  proof (cases "stdin w")
    case Nil
    then show ?thesis by (subst wait_for_input.simps) (simp add: emit_def)
  next
    case (Cons line rest)
    show ?thesis
    proof (cases "strip line = []")
      case True
      with Cons "1.IH"(1) [OF Cons True] show ?thesis
        by (subst wait_for_input.simps) (auto simp: emit_def)
    next
      case False
      show ?thesis
      proof (cases "understand env (strip line)")
        case (Raise e)
        with Cons False show ?thesis by (subst wait_for_input.simps) (simp add: emit_def)
      next
        case (Return understood)
        show ?thesis
        proof (cases understood)
          case Nil
          with Cons False Return "1.IH"(2) [OF Cons False Return Nil] show ?thesis
            by (subst wait_for_input.simps) (auto simp: emit_def)
        next
          case (Cons c cs)
          with \<open>stdin w = line # rest\<close> False Return show ?thesis
            by (subst wait_for_input.simps) (simp add: emit_def)
        qed
      qed
    qed
  qed
qed

lemma wait_for_input_nonempty:
  "fst (wait_for_input env prompt w) = Return understood \<Longrightarrow> understood \<noteq> []"
proof (induction env prompt w rule: wait_for_input.induct)
  case (1 env prompt w)
  from "1.prems" show ?case
    by (subst (asm) wait_for_input.simps)
      (auto split: list.splits if_splits outcome.splits dest: "1.IH")
qed

text \<open>
  C7, as amended. A line that is not empty after stripping and is not a recognised command
  (one unknown character; several characters not starting with \<^verbatim>\<open>n\<close>; \<^verbatim>\<open>n\<close> with an
  argument that \<^verbatim>\<open>int\<close> rejects and \<^verbatim>\<open>eval\<close> rejects with SyntaxError) makes the parser print
  the help text and prompt again: it goes on exactly as a fresh call on the remaining input
  would, neither raising nor returning a command for that line. A line that is empty after
  stripping makes it prompt again without the help text.
\<close>

theorem unrecognised_line_reprompts:
  assumes "stdin w = line # rest"
  shows "(strip line \<noteq> [] \<and>
          ((length (strip line) = 1 \<and> hd (strip line) \<notin> set ''bcdfpnq'') \<or>
           (length (strip line) > 1 \<and> hd (strip line) \<noteq> CHR ''n'') \<or>
           (length (strip line) > 1 \<and> hd (strip line) = CHR ''n'' \<and>
            py_int env (tl (strip line)) = None \<and>
            py_eval env (tl (strip line)) = EvalSyntaxError)) \<longrightarrow>
          wait_for_input env prompt w =
            wait_for_input env prompt
              (emit (Print help_text) (emit (Prompt prompt) w\<lparr>stdin := rest\<rparr>)) \<and>
          (\<exists>evs. stdout (snd (wait_for_input env prompt w)) =
                   stdout w @ [Prompt prompt, Print help_text, Prompt prompt] @ evs)) \<and>
         (strip line = [] \<longrightarrow>
          wait_for_input env prompt w =
            wait_for_input env prompt (emit (Prompt prompt) w\<lparr>stdin := rest\<rparr>) \<and>
          (\<exists>evs. stdout (snd (wait_for_input env prompt w)) =
                   stdout w @ [Prompt prompt, Prompt prompt] @ evs))"
proof (intro conjI impI)
  assume a: "strip line \<noteq> [] \<and>
          ((length (strip line) = 1 \<and> hd (strip line) \<notin> set ''bcdfpnq'') \<or>
           (length (strip line) > 1 \<and> hd (strip line) \<noteq> CHR ''n'') \<or>
           (length (strip line) > 1 \<and> hd (strip line) = CHR ''n'' \<and>
            py_int env (tl (strip line)) = None \<and>
            py_eval env (tl (strip line)) = EvalSyntaxError))"
  then have u: "understand env (strip line) = Return []"
    by (cases "strip line") (auto simp: understand_def)
  with a assms show eq: "wait_for_input env prompt w =
            wait_for_input env prompt
              (emit (Print help_text) (emit (Prompt prompt) w\<lparr>stdin := rest\<rparr>))"
    by (subst wait_for_input.simps) simp
  from wait_for_input_prompts_first
    [of env prompt "emit (Print help_text) (emit (Prompt prompt) w\<lparr>stdin := rest\<rparr>)"]
  show "\<exists>evs. stdout (snd (wait_for_input env prompt w)) =
                   stdout w @ [Prompt prompt, Print help_text, Prompt prompt] @ evs"
    unfolding eq by (auto simp: emit_def)
next
  assume e: "strip line = []"
  with assms show eq: "wait_for_input env prompt w =
            wait_for_input env prompt (emit (Prompt prompt) w\<lparr>stdin := rest\<rparr>)"
    by (subst wait_for_input.simps) simp
  from wait_for_input_prompts_first [of env prompt "emit (Prompt prompt) w\<lparr>stdin := rest\<rparr>"]
  show "\<exists>evs. stdout (snd (wait_for_input env prompt w)) =
                   stdout w @ [Prompt prompt, Prompt prompt] @ evs"
    unfolding eq by (auto simp: emit_def)
qed

theorem unrecognised_line_reprompts_witness:
  "stdin (class_loaded [''xy'', ''c''] :: (nat, unit) world) = ''xy'' # [''c''] \<and>
   strip ''xy'' \<noteq> [] \<and> length (strip ''xy'') > 1 \<and> hd (strip ''xy'') \<noteq> CHR ''n'' \<and>
   wait_for_input sample_env ''>'' (class_loaded [''xy'', ''c''] :: (nat, unit) world) =
     wait_for_input sample_env ''>''
       (emit (Print help_text)
          (emit (Prompt ''>'') (class_loaded [''xy'', ''c''] :: (nat, unit) world)\<lparr>stdin := [''c'']\<rparr>)) \<and>
   stdin (class_loaded [''  '', ''c''] :: (nat, unit) world) = ''  '' # [''c''] \<and>
   strip ''  '' = [] \<and>
   wait_for_input sample_env ''>'' (class_loaded [''  '', ''c''] :: (nat, unit) world) =
     wait_for_input sample_env ''>''
       (emit (Prompt ''>'') (class_loaded [''  '', ''c''] :: (nat, unit) world)\<lparr>stdin := [''c'']\<rparr>)"
  using
    unrecognised_line_reprompts
      [of "class_loaded [''xy'', ''c''] :: (nat, unit) world" "''xy''" "[''c'']" sample_env "''>''"]
    unrecognised_line_reprompts
      [of "class_loaded [''  '', ''c''] :: (nat, unit) world" "''  ''" "[''c'']" sample_env "''>''"]
  by (simp add: strip_def isspace_def class_loaded_def)

text \<open>
  C7 as stated fails for the empty line: after a line of two blanks the parser prompts again
  and no help text has been printed.
\<close>

theorem empty_line_prints_no_help:
  "Print help_text \<notin>
     set (stdout (snd (wait_for_input sample_env ''[CNTK forward] >>> ''
                        (class_loaded [''  '', ''c''] :: (nat, unit) world))))"
  by (simp add: eval_defs)

subsection \<open>Counting the prompts\<close>

lemma prompts_simps [simp]:
  "prompts (emit (Prompt p) w) = Suc (prompts w)"
  "prompts (emit (Print s) w) = prompts w"
  "prompts (emit (PrintValue a) w) = prompts w"
  "prompts (emit (PrintState st) w) = prompts w"
  "prompts (pop c w) = prompts w"
  "prompts (w\<lparr>stdin := i\<rparr>) = prompts w"
  "prompts (w\<lparr>heap := h\<rparr>) = prompts w"
  "prompts (w\<lparr>next_ref := n\<rparr>) = prompts w"
  "prompts (w\<lparr>DebugNode_commands := c\<rparr>) = prompts w"
  "prompts (w\<lparr>DebugNode_last_pass := l\<rparr>) = prompts w"
  by (simp_all add: prompts_def emit_def pop_def)

lemma wait_for_input_prompts:
  "prompts w < prompts (snd (wait_for_input env prompt w))"
  using wait_for_input_prompts_first [of env prompt w] by (auto simp: prompts_def)

lemma pdb_session_prompts:
  "prompts w \<le> prompts (snd (pdb_session env a w))"
  by (simp add: pdb_session_def prompts_def split: prod.split)

subsection \<open>Single passes through the loops\<close>



lemma understand_lambda:
  assumes "hd new_input = CHR ''n''" and "length new_input > 1"
    and "py_int env (tl new_input) = None" and "py_eval env (tl new_input) = EvalValue code"
  shows "understand env new_input = Return [code]"
  using assms by (auto simp: understand_def)

lemma wait_for_input_lambda:
  assumes "stdin w = line # rest" and "hd (strip line) = CHR ''n''" and "length (strip line) > 1"
    and "py_int env (tl (strip line)) = None" and "py_eval env (tl (strip line)) = EvalValue code"
  shows "wait_for_input env prompt w = (Return [code], emit (Prompt prompt) w\<lparr>stdin := rest\<rparr>)"
proof -
  from assms(3) have "strip line \<noteq> []" by auto
  with understand_lambda [OF assms(2-5)] assms(1) show ?thesis
    by (subst wait_for_input.simps) simp
qed

lemma wait_for_input_eof:
  "stdin w = [] \<Longrightarrow> wait_for_input env prompt w = (Raise EOFError, emit (Prompt prompt) w)"
  by (subst wait_for_input.simps) simp

lemma forward_body_c:
  "heap w c \<noteq> [] \<Longrightarrow> last (heap w c) = PStr ''c'' \<Longrightarrow>
   forward_body env self a c w = (Return (True, c, a), w)"
  by (cases "heap w c") (simp_all add: forward_body_def refill_def)

lemma forward_loop_c:
  "heap w c \<noteq> [] \<Longrightarrow> last (heap w c) = PStr ''c'' \<Longrightarrow>
   forward_loop env self a c w = Some (Return (c, a), w)"
  by (subst forward_loop.simps) (simp add: forward_body_c)







lemma forward_body_false:
  "heap w c \<noteq> [] \<Longrightarrow> last (heap w c) = PCallable code \<Longrightarrow> code a (after self) = Return False \<Longrightarrow>
   forward_body env self a c w = (Return (True, c, a), w)"
  by (cases "heap w c") (simp_all add: forward_body_def refill_def)

lemma forward_loop_false:
  "heap w c \<noteq> [] \<Longrightarrow> last (heap w c) = PCallable code \<Longrightarrow> code a (after self) = Return False \<Longrightarrow>
   forward_loop env self a c w = Some (Return (c, a), w)"
  by (subst forward_loop.simps) (simp add: forward_body_false)

lemma forward_body_true:
  "heap w c \<noteq> [] \<Longrightarrow> last (heap w c) = PCallable code \<Longrightarrow> code a (after self) = Return True \<Longrightarrow>
   forward_body env self a c w = (Return (False, c, a), pop c w)"
  by (cases "heap w c") (simp_all add: forward_body_def refill_def)

lemma forward_loop_true:
  "heap w c \<noteq> [] \<Longrightarrow> last (heap w c) = PCallable code \<Longrightarrow> code a (after self) = Return True \<Longrightarrow>
   forward_loop env self a c w = forward_loop env self a c (pop c w)"
  by (subst forward_loop.simps) (simp add: forward_body_true)

lemma forward_body_stuck:
  "heap w c \<noteq> [] \<Longrightarrow> last (heap w c) = PObject \<Longrightarrow>
   forward_body env self a c w = (Return (False, c, a), w)"
  by (cases "heap w c") (simp_all add: forward_body_def refill_def)

lemma forward_body_eof:
  "heap w c = [] \<Longrightarrow> stdin w = [] \<Longrightarrow>
   forward_body env self a c w = (Raise EOFError, emit (Prompt ''[CNTK forward] >>> '') w)"
  by (simp add: forward_body_def refill_def wait_for_input_eof)

lemma forward_loop_eof:
  "heap w c = [] \<Longrightarrow> stdin w = [] \<Longrightarrow>
   forward_loop env self a c w = Some (Raise EOFError, emit (Prompt ''[CNTK forward] >>> '') w)"
  by (subst forward_loop.simps) (simp add: forward_body_eof)

lemma forward_body_raise:
  assumes "heap w c = []"
    and "wait_for_input env ''[CNTK forward] >>> '' w = (Raise e, w1)"
  shows "forward_body env self a c w = (Raise e, w1)"
  using assms by (simp add: forward_body_def refill_def)

lemma forward_loop_raise:
  assumes "heap w c = []"
    and "wait_for_input env ''[CNTK forward] >>> '' w = (Raise e, w1)"
  shows "forward_loop env self a c w = Some (Raise e, w1)"
  by (subst forward_loop.simps) (simp add: forward_body_raise [OF assms])

lemma forward_body_enter:
  assumes "heap w c = []"
    and "wait_for_input env ''[CNTK forward] >>> '' w = (Return understood, w1)"
    and "understood \<noteq> []"
  shows "forward_body env self a c w =
           forward_body env self a (next_ref w1)
             (w1\<lparr>heap := (heap w1)(next_ref w1 := understood), next_ref := Suc (next_ref w1),
                  DebugNode_commands := next_ref w1\<rparr>)"
  using assms by (simp add: forward_body_def refill_def new_list_def)

lemma forward_loop_enter:
  assumes "heap w c = []"
    and "wait_for_input env ''[CNTK forward] >>> '' w = (Return understood, w1)"
    and "understood \<noteq> []"
  shows "forward_loop env self a c w =
           forward_loop env self a (next_ref w1)
             (w1\<lparr>heap := (heap w1)(next_ref w1 := understood), next_ref := Suc (next_ref w1),
                  DebugNode_commands := next_ref w1\<rparr>)"
  by (subst forward_loop.simps, subst (2) forward_loop.simps)
    (simp add: forward_body_enter [OF assms])

lemma backward_body_c:
  "heap w c \<noteq> [] \<Longrightarrow> last (heap w c) = PStr ''c'' \<Longrightarrow>
   backward_body env self st g c w = (Return (True, c, g), w)"
  by (cases "heap w c") (simp_all add: backward_body_def refill_def)

lemma backward_loop_c:
  "heap w c \<noteq> [] \<Longrightarrow> last (heap w c) = PStr ''c'' \<Longrightarrow>
   backward_loop env self st g c w = Some (Return (c, g), w)"
  by (subst backward_loop.simps) (simp add: backward_body_c)







lemma backward_body_false:
  "heap w c \<noteq> [] \<Longrightarrow> last (heap w c) = PCallable code \<Longrightarrow> code g (after self) = Return False \<Longrightarrow>
   backward_body env self st g c w = (Return (True, c, g), w)"
  by (cases "heap w c") (simp_all add: backward_body_def refill_def)

lemma backward_loop_false:
  "heap w c \<noteq> [] \<Longrightarrow> last (heap w c) = PCallable code \<Longrightarrow> code g (after self) = Return False \<Longrightarrow>
   backward_loop env self st g c w = Some (Return (c, g), w)"
  by (subst backward_loop.simps) (simp add: backward_body_false)

lemma backward_body_true:
  "heap w c \<noteq> [] \<Longrightarrow> last (heap w c) = PCallable code \<Longrightarrow> code g (after self) = Return True \<Longrightarrow>
   backward_body env self st g c w = (Return (False, c, g), pop c w)"
  by (cases "heap w c") (simp_all add: backward_body_def refill_def)

lemma backward_loop_true:
  "heap w c \<noteq> [] \<Longrightarrow> last (heap w c) = PCallable code \<Longrightarrow> code g (after self) = Return True \<Longrightarrow>
   backward_loop env self st g c w = backward_loop env self st g c (pop c w)"
  by (subst backward_loop.simps) (simp add: backward_body_true)

lemma backward_body_stuck:
  "heap w c \<noteq> [] \<Longrightarrow> last (heap w c) = PObject \<Longrightarrow>
   backward_body env self st g c w = (Return (False, c, g), w)"
  by (cases "heap w c") (simp_all add: backward_body_def refill_def)

lemma backward_body_eof:
  "heap w c = [] \<Longrightarrow> stdin w = [] \<Longrightarrow>
   backward_body env self st g c w = (Raise EOFError, emit (Prompt ''[CNTK backward] >>> '') w)"
  by (simp add: backward_body_def refill_def wait_for_input_eof)

lemma backward_loop_eof:
  "heap w c = [] \<Longrightarrow> stdin w = [] \<Longrightarrow>
   backward_loop env self st g c w = Some (Raise EOFError, emit (Prompt ''[CNTK backward] >>> '') w)"
  by (subst backward_loop.simps) (simp add: backward_body_eof)

lemma backward_body_raise:
  assumes "heap w c = []"
    and "wait_for_input env ''[CNTK backward] >>> '' w = (Raise e, w1)"
  shows "backward_body env self st g c w = (Raise e, w1)"
  using assms by (simp add: backward_body_def refill_def)

lemma backward_loop_raise:
  assumes "heap w c = []"
    and "wait_for_input env ''[CNTK backward] >>> '' w = (Raise e, w1)"
  shows "backward_loop env self st g c w = Some (Raise e, w1)"
  by (subst backward_loop.simps) (simp add: backward_body_raise [OF assms])

lemma backward_body_enter:
  assumes "heap w c = []"
    and "wait_for_input env ''[CNTK backward] >>> '' w = (Return understood, w1)"
    and "understood \<noteq> []"
  shows "backward_body env self st g c w =
           backward_body env self st g (next_ref w1)
             (w1\<lparr>heap := (heap w1)(next_ref w1 := understood), next_ref := Suc (next_ref w1),
                  DebugNode_commands := next_ref w1\<rparr>)"
  using assms by (simp add: backward_body_def refill_def new_list_def)

lemma backward_loop_enter:
  assumes "heap w c = []"
    and "wait_for_input env ''[CNTK backward] >>> '' w = (Return understood, w1)"
    and "understood \<noteq> []"
  shows "backward_loop env self st g c w =
           backward_loop env self st g (next_ref w1)
             (w1\<lparr>heap := (heap w1)(next_ref w1 := understood), next_ref := Suc (next_ref w1),
                  DebugNode_commands := next_ref w1\<rparr>)"
  by (subst backward_loop.simps, subst (2) backward_loop.simps)
    (simp add: backward_body_enter [OF assms])

subsection \<open>A command that no branch matches\<close>

lemma forward_loop_stuck_aux:
  assumes "forward_loop env self a c w = Some y"
  shows "\<not> (heap w c \<noteq> [] \<and> last (heap w c) = PObject)"
proof (rule forward_loop.raw_induct
    [where P = "\<lambda>env self a c w y. \<not> (heap w c \<noteq> [] \<and> last (heap w c) = PObject)", OF _ assms])
  fix loop :: "('a, 'b) builtins \<Rightarrow> debug_node \<Rightarrow> 'a \<Rightarrow> nat \<Rightarrow> ('a, 'b) world \<Rightarrow>
      ((nat \<times> 'a) outcome \<times> ('a, 'b) world) option"
  fix env self a c w y
  assume IH: "\<And>env self a c w y. loop env self a c w = Some y \<Longrightarrow>
      \<not> (heap w c \<noteq> [] \<and> last (heap w c) = PObject)"
  assume step: "(case forward_body env self a c w of
      (Return (done, commands1, argument1), w1) \<Rightarrow>
        if done then Some (Return (commands1, argument1), w1)
        else loop env self argument1 commands1 w1
      | (Raise e, w1) \<Rightarrow> Some (Raise e, w1)) = Some y"
  show "\<not> (heap w c \<noteq> [] \<and> last (heap w c) = PObject)"
  proof
    assume s: "heap w c \<noteq> [] \<and> last (heap w c) = PObject"
    with step have "loop env self a c w = Some y" by (simp add: forward_body_stuck)
    from IH [OF this] s show False by simp
  qed
qed

lemma forward_loop_stuck:
  "heap w c \<noteq> [] \<Longrightarrow> last (heap w c) = PObject \<Longrightarrow> forward_loop env self a c w = None"
  using forward_loop_stuck_aux [of env self a c w] by (cases "forward_loop env self a c w") auto

lemma forward_loop_refill_stuck:
  assumes "heap w c = []" and "fst (wait_for_input env ''[CNTK forward] >>> '' w) = Return [PObject]"
  shows "forward_loop env self a c w = None"
proof -
  obtain w1 where p: "wait_for_input env ''[CNTK forward] >>> '' w = (Return [PObject], w1)"
    using assms(2) by (cases "wait_for_input env ''[CNTK forward] >>> '' w") auto
  let ?w2 = "w1\<lparr>heap := (heap w1)(next_ref w1 := [PObject]), next_ref := Suc (next_ref w1),
                 DebugNode_commands := next_ref w1\<rparr>"
  have "forward_loop env self a c w = forward_loop env self a (next_ref w1) ?w2"
    by (rule forward_loop_enter [OF assms(1) p]) simp
  also have "\<dots> = None"
    by (rule forward_loop_stuck) simp_all
  finally show ?thesis .
qed

text \<open>
  C10 at the line \<^verbatim>\<open>n 1.5\<close>: \<^verbatim>\<open>int\<close> rejects the argument, \<^verbatim>\<open>eval\<close> yields a number, and
  the parser returns the one-element list holding it, which is neither one of the command
  characters nor callable. In \<^verbatim>\<open>forward\<close> no branch of the chain matches it, nothing is
  popped and \<^verbatim>\<open>done\<close> stays false: the call never returns and never prompts again.
\<close>

theorem non_callable_command_hangs:
  "fst (wait_for_input sample_env ''[CNTK forward] >>> ''
          (class_loaded [''n 1.5'', ''c''] :: (nat, unit) world)) = Return [PObject] \<and>
   forward sample_env times_node 5 (class_loaded [''n 1.5'', ''c''] :: (nat, unit) world) = None"
proof
  show "fst (wait_for_input sample_env ''[CNTK forward] >>> ''
          (class_loaded [''n 1.5'', ''c''] :: (nat, unit) world)) = Return [PObject]"
    by (simp add: eval_defs)
  obtain w1 where p: "print_status times_node ''f'' (class_loaded [''n 1.5'', ''c''] :: (nat, unit) world) =
      (Return (), w1)" and h: "heap w1 (DebugNode_commands w1) = []"
    and i: "stdin w1 = [''n 1.5'', ''c'']"
    by (simp add: print_status_def format_status_def times_node_def class_loaded_def emit_def)
  have "fst (wait_for_input sample_env ''[CNTK forward] >>> '' w1) = Return [PObject]"
    using i by (simp add: wait_for_input.simps strip_def isspace_def understand_def sample_env_def
        sample_int_def sample_eval_def eval_nat_numeral)
  from forward_loop_refill_stuck [OF h this] p
  show "forward sample_env times_node 5 (class_loaded [''n 1.5'', ''c''] :: (nat, unit) world) = None"
    by (simp add: forward_def)
qed

subsection \<open>Whole calls\<close>

text \<open>
  A call whose status line formats prints the status and then runs its loop on the list the
  class attribute refers to; the printing touches neither the lists, nor the input, nor the
  number of prompts.
\<close>

lemma print_status_ok:
  assumes "format_status self \<noteq> Raise TypeError"
  shows "\<exists>w0. print_status self p w = (Return (), w0) \<and> heap w0 = heap w \<and>
           DebugNode_commands w0 = DebugNode_commands w \<and> stdin w0 = stdin w \<and>
           prompts w0 = prompts w"
proof -
  obtain r0 w0 where p: "print_status self p w = (r0, w0)"
    by (cases "print_status self p w")
  have "r0 = Return ()"
    using print_status_outcome [of self p w] p assms format_status_cases [of self] by auto
  with p print_status_frame [of self p w] show ?thesis by simp
qed

lemma forward_eq:
  assumes "format_status self \<noteq> Raise TypeError"
  shows "\<exists>w0. heap w0 = heap w \<and> DebugNode_commands w0 = DebugNode_commands w \<and>
           stdin w0 = stdin w \<and> prompts w0 = prompts w \<and>
           forward env self a w =
             (case forward_loop env self a (DebugNode_commands w) w0 of
                None \<Rightarrow> None
              | Some (Raise e, w2) \<Rightarrow> Some (Raise e, w2)
              | Some (Return (c, a1), w2) \<Rightarrow>
                  Some (Return (None, a1), w2\<lparr>DebugNode_last_pass := ''f''\<rparr>))"
proof -
  from print_status_ok [OF assms, of "''f''" w] obtain w0 where
    "print_status self ''f'' w = (Return (), w0)" "heap w0 = heap w"
    "DebugNode_commands w0 = DebugNode_commands w" "stdin w0 = stdin w" "prompts w0 = prompts w"
    by blast
  then show ?thesis
    by (intro exI [of _ w0]) (simp add: forward_def)
qed

lemma backward_eq:
  assumes "format_status self \<noteq> Raise TypeError"
  shows "\<exists>w0. heap w0 = heap w \<and> DebugNode_commands w0 = DebugNode_commands w \<and>
           stdin w0 = stdin w \<and> prompts w0 = prompts w \<and>
           backward env self st g w =
             (case backward_loop env self st g (DebugNode_commands w) w0 of
                None \<Rightarrow> None
              | Some (Raise e, w2) \<Rightarrow> Some (Raise e, w2)
              | Some (Return (c, g1), w2) \<Rightarrow>
                  Some (Return g1, w2\<lparr>DebugNode_last_pass := ''b''\<rparr>))"
proof -
  from print_status_ok [OF assms, of "''b''" w] obtain w0 where
    "print_status self ''b'' w = (Return (), w0)" "heap w0 = heap w"
    "DebugNode_commands w0 = DebugNode_commands w" "stdin w0 = stdin w" "prompts w0 = prompts w"
    by blast
  then show ?thesis
    by (intro exI [of _ w0]) (simp add: backward_def)
qed

lemma call_eq:
  assumes "format_status (visited v) \<noteq> Raise TypeError"
  shows "\<exists>w0. heap w0 = heap w \<and> DebugNode_commands w0 = DebugNode_commands w \<and>
           stdin w0 = stdin w \<and> prompts w0 = prompts w \<and>
           call env v w =
             (case visit_loop env v (DebugNode_commands w) w0 of
                None \<Rightarrow> None
              | Some (Raise e, w2) \<Rightarrow> Some (Raise e, w2)
              | Some (Return ca, w2) \<Rightarrow> Some (Return (), w2\<lparr>DebugNode_last_pass := pass_of v\<rparr>))"
proof (cases v)
  case (Forward self a)
  from forward_eq [of self w env a] assms Forward obtain w0 where
    fr: "heap w0 = heap w" "DebugNode_commands w0 = DebugNode_commands w" "stdin w0 = stdin w"
      "prompts w0 = prompts w"
    and f: "forward env self a w =
             (case forward_loop env self a (DebugNode_commands w) w0 of
                None \<Rightarrow> None
              | Some (Raise e, w2) \<Rightarrow> Some (Raise e, w2)
              | Some (Return (c, a1), w2) \<Rightarrow>
                  Some (Return (None, a1), w2\<lparr>DebugNode_last_pass := ''f''\<rparr>))"
    by auto
  show ?thesis
    using fr Forward unfolding call.simps Forward f
    by (intro exI [of _ w0]) (simp split: option.split prod.split outcome.split)
next
  case (Backward self st g)
  from backward_eq [of self w env st g] assms Backward obtain w0 where
    fr: "heap w0 = heap w" "DebugNode_commands w0 = DebugNode_commands w" "stdin w0 = stdin w"
      "prompts w0 = prompts w"
    and f: "backward env self st g w =
             (case backward_loop env self st g (DebugNode_commands w) w0 of
                None \<Rightarrow> None
              | Some (Raise e, w2) \<Rightarrow> Some (Raise e, w2)
              | Some (Return (c, g1), w2) \<Rightarrow>
                  Some (Return g1, w2\<lparr>DebugNode_last_pass := ''b''\<rparr>))"
    by auto
  show ?thesis
    using fr Backward unfolding call.simps Backward f
    by (intro exI [of _ w0]) (simp split: option.split prod.split outcome.split)
qed

lemma visit_loop_c:
  "heap w c \<noteq> [] \<Longrightarrow> last (heap w c) = PStr ''c'' \<Longrightarrow>
   visit_loop env v c w = Some (Return (c, data v), w)"
  by (cases v) (simp_all add: forward_loop_c backward_loop_c)


lemma visit_loop_false:
  "heap w c \<noteq> [] \<Longrightarrow> last (heap w c) = PCallable code \<Longrightarrow>
   code (data v) (after (visited v)) = Return False \<Longrightarrow>
   visit_loop env v c w = Some (Return (c, data v), w)"
  by (cases v) (simp_all add: forward_loop_false backward_loop_false)

lemma visit_loop_true:
  "heap w c \<noteq> [] \<Longrightarrow> last (heap w c) = PCallable code \<Longrightarrow>
   code (data v) (after (visited v)) = Return True \<Longrightarrow>
   visit_loop env v c w = visit_loop env v c (pop c w)"
  by (cases v) (simp_all add: forward_loop_true backward_loop_true)

lemma visit_loop_eof:
  "heap w c = [] \<Longrightarrow> stdin w = [] \<Longrightarrow>
   visit_loop env v c w = Some (Raise EOFError, emit (Prompt (prompt_of v)) w)"
  by (cases v) (simp_all add: forward_loop_eof backward_loop_eof)

lemma visit_loop_enter:
  assumes "heap w c = []"
    and "wait_for_input env (prompt_of v) w = (Return understood, w1)"
    and "understood \<noteq> []"
  shows "visit_loop env v c w =
           visit_loop env v (next_ref w1)
             (w1\<lparr>heap := (heap w1)(next_ref w1 := understood), next_ref := Suc (next_ref w1),
                  DebugNode_commands := next_ref w1\<rparr>)"
  using assms by (cases v) (simp_all add: forward_loop_enter backward_loop_enter)

subsection \<open>Run until end\<close>

text \<open>
  With \<^verbatim>\<open>'c'\<close> on top of the command list, a call on a node whose status line formats
  returns at once: it reads no input, prompts for none and leaves the list as it is.
\<close>

lemma call_c:
  assumes "format_status (visited v) \<noteq> Raise TypeError"
    and "pending w \<noteq> []" and "last (pending w) = PStr ''c''"
  shows "\<exists>w1. call env v w = Some (Return (), w1) \<and> pending w1 = pending w \<and>
           stdin w1 = stdin w \<and> prompts w1 = prompts w"
proof -
  from call_eq [OF assms(1), of w env] obtain w0 where
    fr: "heap w0 = heap w" "DebugNode_commands w0 = DebugNode_commands w" "stdin w0 = stdin w"
      "prompts w0 = prompts w"
    and c: "call env v w =
             (case visit_loop env v (DebugNode_commands w) w0 of
                None \<Rightarrow> None
              | Some (Raise e, w2) \<Rightarrow> Some (Raise e, w2)
              | Some (Return ca, w2) \<Rightarrow> Some (Return (), w2\<lparr>DebugNode_last_pass := pass_of v\<rparr>))"
    by blast
  have "visit_loop env v (DebugNode_commands w) w0 =
          Some (Return (DebugNode_commands w, data v), w0)"
    using assms(2,3) fr by (intro visit_loop_c) (simp_all add: pending_def)
  with c fr show ?thesis
    by (simp add: pending_def)
qed

lemma traverse_c:
  assumes "\<forall>v \<in> set vs. format_status (visited v) \<noteq> Raise TypeError"
    and "pending w \<noteq> []" and "last (pending w) = PStr ''c''"
  shows "\<exists>w1. traverse env vs w = Some (Return (), w1) \<and> pending w1 = pending w \<and>
           stdin w1 = stdin w \<and> prompts w1 = prompts w"
  using assms
proof (induction vs arbitrary: w)
  case Nil
  then show ?case by simp
next
  case (Cons v vs)
  from Cons.prems(1) have ok: "format_status (visited v) \<noteq> Raise TypeError" by simp
  from call_c [OF ok Cons.prems(2,3), of env] obtain w1 where
    c: "call env v w = Some (Return (), w1)"
    and fr: "pending w1 = pending w" "stdin w1 = stdin w" "prompts w1 = prompts w" by blast
  from Cons.prems fr have "\<forall>v \<in> set vs. format_status (visited v) \<noteq> Raise TypeError"
    "pending w1 \<noteq> []" "last (pending w1) = PStr ''c''" by simp_all
  from Cons.IH [OF this] c fr show ?case by auto
qed

text \<open>
  C9 fails on a node that is sparse and neither a Constant, a Parameter nor a Function,
  such as a sparse input variable: \<^verbatim>\<open>_format_status\<close> adds \<^verbatim>\<open>' (sparse)'\<close> to
  \<^verbatim>\<open>type(self.after)\<close>, which is not a string. After \<^verbatim>\<open>c\<close> was typed at the first node,
  \<^verbatim>\<open>'c'\<close> is the last element of the command list, and the call of \<^verbatim>\<open>forward\<close> on the
  sparse node that follows does not return: it raises TypeError.
\<close>

theorem run_until_end_raises_at_sparse_input:
  "observed (traverse sample_env [Forward times_node 3]
      (class_loaded [''c''] :: (nat, unit) world)) = Some (Return (), [PStr ''c''], [], 1) \<and>
   observed (traverse sample_env [Forward times_node 3, Forward sparse_input_node 4]
      (class_loaded [''c''] :: (nat, unit) world)) = Some (Raise TypeError, [PStr ''c''], [], 1)"
  by (simp add: eval_defs prompts_def)

subsection \<open>The data passes through\<close>
















subsection \<open>When a call prompts\<close>

text \<open>A pass through the loop body calls \<^verbatim>\<open>input\<close> when the command list is empty.\<close>

lemma refill_prompts:
  "prompts w \<le> prompts (snd (refill env prompt c w))"
  "heap w c = [] \<Longrightarrow> prompts w < prompts (snd (refill env prompt c w))"
  using wait_for_input_prompts [of w env prompt]
  by (auto simp: refill_def new_list_def split: prod.splits outcome.splits)

lemma forward_body_after_refill:
  "prompts (snd (refill env ''[CNTK forward] >>> '' c w)) \<le>
     prompts (snd (forward_body env self a c w))"
proof -
  obtain r w' where rf: "refill env ''[CNTK forward] >>> '' c w = (r, w')"
    by (cases "refill env ''[CNTK forward] >>> '' c w")
  show ?thesis
  proof (cases r)
    case (Raise e)
    with rf show ?thesis by (simp add: forward_body_def)
  next
    case (Return c1)
    show ?thesis
    proof (cases "heap w' c1")
      case Nil
      with rf Return show ?thesis by (simp add: forward_body_def)
    next
      case (Cons x xs)
      show ?thesis
      proof (cases "last (heap w' c1)")
        case (PStr s)
        show ?thesis
        proof (cases "s = ''d''")
          case False
          with rf Return Cons PStr show ?thesis by (simp add: forward_body_def)
        next
          case True
          obtain r2 w2 where p: "pdb_session env a (pop c1 w') = (r2, w2)"
            by (cases "pdb_session env a (pop c1 w')")
          with pdb_session_prompts [where w = "pop c1 w'" and env = env and a = a]
          have "prompts w' \<le> prompts w2" by simp
          with rf Return Cons PStr True p show ?thesis
            by (cases r2) (simp_all add: forward_body_def)
        qed
      next
        case (PCallable code)
        with rf Return Cons show ?thesis
          by (cases "code a (after self)") (simp_all add: forward_body_def split: bool.split)
      next
        case PObject
        with rf Return Cons show ?thesis by (simp add: forward_body_def)
      qed
    qed
  qed
qed

lemma backward_body_after_refill:
  "prompts (snd (refill env ''[CNTK backward] >>> '' c w)) \<le>
     prompts (snd (backward_body env self st g c w))"
proof -
  obtain r w' where rf: "refill env ''[CNTK backward] >>> '' c w = (r, w')"
    by (cases "refill env ''[CNTK backward] >>> '' c w")
  show ?thesis
  proof (cases r)
    case (Raise e)
    with rf show ?thesis by (simp add: backward_body_def)
  next
    case (Return c1)
    show ?thesis
    proof (cases "heap w' c1")
      case Nil
      with rf Return show ?thesis by (simp add: backward_body_def)
    next
      case (Cons x xs)
      show ?thesis
      proof (cases "last (heap w' c1)")
        case (PStr s)
        show ?thesis
        proof (cases "s = ''d''")
          case False
          with rf Return Cons PStr show ?thesis by (simp add: backward_body_def)
        next
          case True
          obtain r2 w2 where p: "pdb_session env g w' = (r2, w2)"
            by (cases "pdb_session env g w'")
          with pdb_session_prompts [where w = w' and env = env and a = g]
          have "prompts w' \<le> prompts w2" by simp
          with rf Return Cons PStr True p show ?thesis
            by (cases r2) (simp_all add: backward_body_def)
        qed
      next
        case (PCallable code)
        with rf Return Cons show ?thesis
          by (cases "code g (after self)") (simp_all add: backward_body_def split: bool.split)
      next
        case PObject
        with rf Return Cons show ?thesis by (simp add: backward_body_def)
      qed
    qed
  qed
qed

lemma forward_body_prompts:
  "prompts w \<le> prompts (snd (forward_body env self a c w))"
  "heap w c = [] \<Longrightarrow> prompts w < prompts (snd (forward_body env self a c w))"
  using forward_body_after_refill [where env = env and c = c and w = w and self = self and a = a]
    refill_prompts [where w = w and env = env and prompt = "''[CNTK forward] >>> ''" and c = c]
  by simp_all

lemma backward_body_prompts:
  "prompts w \<le> prompts (snd (backward_body env self st g c w))"
  "heap w c = [] \<Longrightarrow> prompts w < prompts (snd (backward_body env self st g c w))"
  using backward_body_after_refill
      [where env = env and c = c and w = w and self = self and st = st and g = g]
    refill_prompts [where w = w and env = env and prompt = "''[CNTK backward] >>> ''" and c = c]
  by simp_all

lemma forward_loop_prompts:
  assumes "forward_loop env self a c w = Some y"
  shows "prompts w \<le> prompts (snd y)"
proof (rule forward_loop.raw_induct
    [where P = "\<lambda>env self a c w y. prompts w \<le> prompts (snd y)", OF _ assms])
  fix loop :: "('a, 'b) builtins \<Rightarrow> debug_node \<Rightarrow> 'a \<Rightarrow> nat \<Rightarrow> ('a, 'b) world \<Rightarrow>
      ((nat \<times> 'a) outcome \<times> ('a, 'b) world) option"
  fix env self a c w y
  assume IH: "\<And>env self a c w y. loop env self a c w = Some y \<Longrightarrow> prompts w \<le> prompts (snd y)"
  assume step: "(case forward_body env self a c w of
      (Return (done, commands1, argument1), w1) \<Rightarrow>
        if done then Some (Return (commands1, argument1), w1)
        else loop env self argument1 commands1 w1
      | (Raise e, w1) \<Rightarrow> Some (Raise e, w1)) = Some y"
  obtain r w1 where b: "forward_body env self a c w = (r, w1)"
    by (cases "forward_body env self a c w")
  with forward_body_prompts(1) [where w = w and env = env and self = self and a = a and c = c]
  have le: "prompts w \<le> prompts w1" by simp
  show "prompts w \<le> prompts (snd y)"
  proof (cases r)
    case (Raise e)
    with step b le show ?thesis by auto
  next
    case (Return t)
    obtain d c1 a1 where t: "t = (d, c1, a1)" by (cases t)
    show ?thesis
    proof (cases d)
      case True
      with step b le Return t show ?thesis by auto
    next
      case False
      with step b Return t have "loop env self a1 c1 w1 = Some y" by simp
      from IH [OF this] le show ?thesis by simp
    qed
  qed
qed

lemma forward_loop_empty_prompts:
  assumes "forward_loop env self a c w = Some y" and "heap w c = []"
  shows "prompts w < prompts (snd y)"
proof -
  obtain r w1 where b: "forward_body env self a c w = (r, w1)"
    by (cases "forward_body env self a c w")
  with forward_body_prompts(2) [OF assms(2), where env = env and self = self and a = a]
  have lt: "prompts w < prompts w1" by simp
  show ?thesis
  proof (cases r)
    case (Raise e)
    with assms(1) b lt show ?thesis by (subst (asm) forward_loop.simps) auto
  next
    case (Return t)
    obtain d c1 a1 where t: "t = (d, c1, a1)" by (cases t)
    show ?thesis
    proof (cases d)
      case True
      with assms(1) b lt Return t show ?thesis by (subst (asm) forward_loop.simps) auto
    next
      case False
      with assms(1) b Return t have "forward_loop env self a1 c1 w1 = Some y"
        by (subst (asm) forward_loop.simps) simp
      from forward_loop_prompts [OF this] lt show ?thesis by simp
    qed
  qed
qed

lemma backward_loop_prompts:
  assumes "backward_loop env self st g c w = Some y"
  shows "prompts w \<le> prompts (snd y)"
proof (rule backward_loop.raw_induct
    [where P = "\<lambda>env self st g c w y. prompts w \<le> prompts (snd y)", OF _ assms])
  fix loop :: "('a, 'b) builtins \<Rightarrow> debug_node \<Rightarrow> 'b option \<Rightarrow> 'a \<Rightarrow> nat \<Rightarrow> ('a, 'b) world \<Rightarrow>
      ((nat \<times> 'a) outcome \<times> ('a, 'b) world) option"
  fix env self st g c w y
  assume IH: "\<And>env self st g c w y. loop env self st g c w = Some y \<Longrightarrow> prompts w \<le> prompts (snd y)"
  assume step: "(case backward_body env self st g c w of
      (Return (done, commands1, root_gradients1), w1) \<Rightarrow>
        if done then Some (Return (commands1, root_gradients1), w1)
        else loop env self st root_gradients1 commands1 w1
      | (Raise e, w1) \<Rightarrow> Some (Raise e, w1)) = Some y"
  obtain r w1 where b: "backward_body env self st g c w = (r, w1)"
    by (cases "backward_body env self st g c w")
  with backward_body_prompts(1) [where w = w and env = env and self = self and g = g and c = c and st = st]
  have le: "prompts w \<le> prompts w1" by simp
  show "prompts w \<le> prompts (snd y)"
  proof (cases r)
    case (Raise e)
    with step b le show ?thesis by auto
  next
    case (Return t)
    obtain d c1 a1 where t: "t = (d, c1, a1)" by (cases t)
    show ?thesis
    proof (cases d)
      case True
      with step b le Return t show ?thesis by auto
    next
      case False
      with step b Return t have "loop env self st a1 c1 w1 = Some y" by simp
      from IH [OF this] le show ?thesis by simp
    qed
  qed
qed

lemma backward_loop_empty_prompts:
  assumes "backward_loop env self st g c w = Some y" and "heap w c = []"
  shows "prompts w < prompts (snd y)"
proof -
  obtain r w1 where b: "backward_body env self st g c w = (r, w1)"
    by (cases "backward_body env self st g c w")
  with backward_body_prompts(2) [OF assms(2), where env = env and self = self and g = g and st = st]
  have lt: "prompts w < prompts w1" by simp
  show ?thesis
  proof (cases r)
    case (Raise e)
    with assms(1) b lt show ?thesis by (subst (asm) backward_loop.simps) auto
  next
    case (Return t)
    obtain d c1 a1 where t: "t = (d, c1, a1)" by (cases t)
    show ?thesis
    proof (cases d)
      case True
      with assms(1) b lt Return t show ?thesis by (subst (asm) backward_loop.simps) auto
    next
      case False
      with assms(1) b Return t have "backward_loop env self st a1 c1 w1 = Some y"
        by (subst (asm) backward_loop.simps) simp
      from backward_loop_prompts [OF this] lt show ?thesis by simp
    qed
  qed
qed

lemma visit_loop_empty_prompts:
  "visit_loop env v c w = Some y \<Longrightarrow> heap w c = [] \<Longrightarrow> prompts w < prompts (snd y)"
  by (cases v) (simp_all add: forward_loop_empty_prompts backward_loop_empty_prompts)


lemma call_false:
  assumes "format_status (visited v) \<noteq> Raise TypeError"
    and "pending w \<noteq> []" and "last (pending w) = PCallable code"
    and "code (data v) (after (visited v)) = Return False"
  shows "\<exists>w1. call env v w = Some (Return (), w1) \<and> pending w1 = pending w \<and>
           stdin w1 = stdin w \<and> prompts w1 = prompts w"
proof -
  from call_eq [OF assms(1), of w env] obtain w0 where
    fr: "heap w0 = heap w" "DebugNode_commands w0 = DebugNode_commands w" "stdin w0 = stdin w"
      "prompts w0 = prompts w"
    and c: "call env v w =
             (case visit_loop env v (DebugNode_commands w) w0 of
                None \<Rightarrow> None
              | Some (Raise e, w2) \<Rightarrow> Some (Raise e, w2)
              | Some (Return ca, w2) \<Rightarrow> Some (Return (), w2\<lparr>DebugNode_last_pass := pass_of v\<rparr>))"
    by blast
  have "visit_loop env v (DebugNode_commands w) w0 = Some (Return (DebugNode_commands w, data v), w0)"
    using assms(2,3,4) fr by (intro visit_loop_false [where code = code]) (simp_all add: pending_def)
  with c fr show ?thesis
    by (simp add: pending_def)
qed


lemma call_enter_lambda:
  assumes "format_status (visited v) \<noteq> Raise TypeError"
    and "pending w = []"
    and "stdin w = line # rest" and "hd (strip line) = CHR ''n''" and "length (strip line) > 1"
    and "py_int env (tl (strip line)) = None"
    and "py_eval env (tl (strip line)) = EvalValue (PCallable code)"
    and "code (data v) (after (visited v)) = Return False"
  shows "\<exists>w1. call env v w = Some (Return (), w1) \<and> pending w1 = [PCallable code] \<and>
           stdin w1 = rest \<and> prompts w1 = Suc (prompts w)"
proof -
  from call_eq [OF assms(1), of w env] obtain w0 where
    fr: "heap w0 = heap w" "DebugNode_commands w0 = DebugNode_commands w" "stdin w0 = stdin w"
      "prompts w0 = prompts w"
    and c: "call env v w =
             (case visit_loop env v (DebugNode_commands w) w0 of
                None \<Rightarrow> None
              | Some (Raise e, w2) \<Rightarrow> Some (Raise e, w2)
              | Some (Return ca, w2) \<Rightarrow> Some (Return (), w2\<lparr>DebugNode_last_pass := pass_of v\<rparr>))"
    by blast
  define w1 where "w1 = emit (Prompt (prompt_of v)) w0\<lparr>stdin := rest\<rparr>"
  define w2 where "w2 = w1\<lparr>heap := (heap w1)(next_ref w1 := [PCallable code]),
    next_ref := Suc (next_ref w1), DebugNode_commands := next_ref w1\<rparr>"
  have wi: "wait_for_input env (prompt_of v) w0 = (Return [PCallable code], w1)"
    unfolding w1_def using assms(3) fr(3) by (intro wait_for_input_lambda [OF _ assms(4-7)]) simp
  have e: "heap w0 (DebugNode_commands w) = []"
    using assms(2) fr by (simp add: pending_def)
  have "visit_loop env v (DebugNode_commands w) w0 = visit_loop env v (next_ref w1) w2"
    unfolding w2_def by (intro visit_loop_enter [OF e wi]) simp
  also have "\<dots> = Some (Return (next_ref w1, data v), w2)"
    using assms(8) by (intro visit_loop_false [where code = code]) (simp_all add: w2_def)
  finally have "call env v w = Some (Return (), w2\<lparr>DebugNode_last_pass := pass_of v\<rparr>)"
    using c by simp
  moreover have "pending (w2\<lparr>DebugNode_last_pass := pass_of v\<rparr>) = [PCallable code]"
    by (simp add: pending_def w2_def)
  moreover have "stdin (w2\<lparr>DebugNode_last_pass := pass_of v\<rparr>) = rest"
    by (simp add: w2_def w1_def emit_def)
  moreover have "prompts (w2\<lparr>DebugNode_last_pass := pass_of v\<rparr>) = Suc (prompts w)"
    using fr(4) by (simp add: w2_def w1_def)
  ultimately show ?thesis by blast
qed



lemma call_true_prompts:
  assumes "format_status (visited v) \<noteq> Raise TypeError"
    and "pending w = [PCallable code]"
    and "code (data v) (after (visited v)) = Return True"
    and "call env v w = Some (r, w1)"
  shows "prompts w < prompts w1"
proof -
  from call_eq [OF assms(1), of w env] obtain w0 where
    fr: "heap w0 = heap w" "DebugNode_commands w0 = DebugNode_commands w" "stdin w0 = stdin w"
      "prompts w0 = prompts w"
    and c: "call env v w =
             (case visit_loop env v (DebugNode_commands w) w0 of
                None \<Rightarrow> None
              | Some (Raise e, w2) \<Rightarrow> Some (Raise e, w2)
              | Some (Return ca, w2) \<Rightarrow> Some (Return (), w2\<lparr>DebugNode_last_pass := pass_of v\<rparr>))"
    by blast
  from c assms(4) obtain y where y: "visit_loop env v (DebugNode_commands w) w0 = Some y"
    by (cases "visit_loop env v (DebugNode_commands w) w0") auto
  have h: "heap w0 (DebugNode_commands w) = [PCallable code]"
    using assms(2) fr by (simp add: pending_def)
  have "visit_loop env v (DebugNode_commands w) w0 =
          visit_loop env v (DebugNode_commands w) (pop (DebugNode_commands w) w0)"
    using h assms(3) by (intro visit_loop_true [where code = code]) simp_all
  with y have "visit_loop env v (DebugNode_commands w) (pop (DebugNode_commands w) w0) = Some y"
    by simp
  from visit_loop_empty_prompts [OF this] h have "prompts w < prompts (snd y)"
    using fr(4) by (simp add: pop_def)
  with c y assms(4) show ?thesis
    by (cases y; cases "fst y") auto
qed

lemma call_true_eof:
  assumes "format_status (visited v) \<noteq> Raise TypeError"
    and "pending w = [PCallable code]"
    and "code (data v) (after (visited v)) = Return True"
    and "stdin w = []"
  shows "\<exists>w1. call env v w = Some (Raise EOFError, w1) \<and> pending w1 = [] \<and>
           prompts w1 = Suc (prompts w)"
proof -
  from call_eq [OF assms(1), of w env] obtain w0 where
    fr: "heap w0 = heap w" "DebugNode_commands w0 = DebugNode_commands w" "stdin w0 = stdin w"
      "prompts w0 = prompts w"
    and c: "call env v w =
             (case visit_loop env v (DebugNode_commands w) w0 of
                None \<Rightarrow> None
              | Some (Raise e, w2) \<Rightarrow> Some (Raise e, w2)
              | Some (Return ca, w2) \<Rightarrow> Some (Return (), w2\<lparr>DebugNode_last_pass := pass_of v\<rparr>))"
    by blast
  have h: "heap w0 (DebugNode_commands w) = [PCallable code]"
    using assms(2) fr by (simp add: pending_def)
  have "visit_loop env v (DebugNode_commands w) w0 =
          visit_loop env v (DebugNode_commands w) (pop (DebugNode_commands w) w0)"
    using h assms(3) by (intro visit_loop_true [where code = code]) simp_all
  also have "\<dots> = Some (Raise EOFError,
      emit (Prompt (prompt_of v)) (pop (DebugNode_commands w) w0))"
    using h assms(4) fr by (intro visit_loop_eof) (simp_all add: pop_def)
  finally have "call env v w =
      Some (Raise EOFError, emit (Prompt (prompt_of v)) (pop (DebugNode_commands w) w0))"
    using c by simp
  moreover have "pending (emit (Prompt (prompt_of v)) (pop (DebugNode_commands w) w0)) = []"
    using fr h by (simp add: pending_def emit_def pop_def)
  moreover have "prompts (emit (Prompt (prompt_of v)) (pop (DebugNode_commands w) w0)) =
      Suc (prompts w)"
    using fr(4) by simp
  ultimately show ?thesis by blast
qed

subsection \<open>Stepping through a traversal\<close>


lemma traverse_false:
  assumes "\<forall>v \<in> set vs. format_status (visited v) \<noteq> Raise TypeError"
    and "\<forall>v \<in> set vs. code (data v) (after (visited v)) = Return False"
    and "pending w = [PCallable code]"
  shows "\<exists>w1. traverse env vs w = Some (Return (), w1) \<and> pending w1 = [PCallable code] \<and>
           stdin w1 = stdin w \<and> prompts w1 = prompts w"
  using assms
proof (induction vs arbitrary: w)
  case Nil
  then show ?case by simp
next
  case (Cons v vs)
  from Cons.prems(1) have ok: "format_status (visited v) \<noteq> Raise TypeError" by simp
  from Cons.prems(2) have f: "code (data v) (after (visited v)) = Return False" by simp
  from Cons.prems(3) have top: "pending w \<noteq> []" "last (pending w) = PCallable code" by simp_all
  from call_false [OF ok top f, of env] obtain w1 where
    c: "call env v w = Some (Return (), w1)" and p: "pending w1 = pending w"
    and fr: "stdin w1 = stdin w" "prompts w1 = prompts w" by blast
  from p Cons.prems(3) have p1: "pending w1 = [PCallable code]" by simp
  from Cons.prems(1,2) have "\<forall>v \<in> set vs. format_status (visited v) \<noteq> Raise TypeError"
    "\<forall>v \<in> set vs. code (data v) (after (visited v)) = Return False" by simp_all
  from Cons.IH [OF this p1] c fr show ?case by auto
qed





end
